theory Spec2Isabelle
  imports Main "HOL-Library.Sublist"
begin

section \<open>Python values as loaded from a YAML document\<close>

text \<open>
  \<^verbatim>\<open>yaml.safe_load\<close> yields nested Python values.  The model covers None, booleans,
  integers, strings, lists and dictionaries with scalar keys; floating-point scalars,
  timestamps and binary data are not modelled.  A string is its sequence of bytes
  (UTF-8); a dictionary is an association list in insertion order.
\<close>

datatype pykey = KNone | KBool bool | KInt int | KStr string

datatype pyval =
    PNone
  | PBool bool
  | PInt int
  | PStr string
  | PList "pyval list"
  | PDict "(pykey \<times> pyval) list"

text \<open>An exception carries the text that \<^verbatim>\<open>str(e)\<close> gives.\<close>

datatype exn =
    KeyError string
  | TypeError string
  | AttributeError string
  | ValueError string
  | OverflowError string

fun exn_str :: "exn \<Rightarrow> string" where
  "exn_str (KeyError m) = m"
| "exn_str (TypeError m) = m"
| "exn_str (AttributeError m) = m"
| "exn_str (ValueError m) = m"
| "exn_str (OverflowError m) = m"

definition bind_r :: "exn + 'a \<Rightarrow> ('a \<Rightarrow> exn + 'b) \<Rightarrow> exn + 'b" where
  "bind_r m f = (case m of Inl e \<Rightarrow> Inl e | Inr x \<Rightarrow> f x)"

text \<open>A comprehension or loop whose body may raise: the first exception ends it.\<close>

fun map_r :: "('a \<Rightarrow> exn + 'b) \<Rightarrow> 'a list \<Rightarrow> exn + 'b list" where
  "map_r f [] = Inr []"
| "map_r f (x # xs) = bind_r (f x) (\<lambda>y. bind_r (map_r f xs) (\<lambda>ys. Inr (y # ys)))"

subsection \<open>Rendering of values\<close>

fun digits :: "nat \<Rightarrow> string" where
  "digits n = (if n < 10 then [''0123456789'' ! n]
               else digits (n div 10) @ [''0123456789'' ! (n mod 10)])"

definition str_int :: "int \<Rightarrow> string" where
  "str_int i = (if i < 0 then ''-'' @ digits (nat (- i)) else digits (nat i))"

definition hex2 :: "nat \<Rightarrow> string" where
  "hex2 n = [''0123456789abcdef'' ! (n div 16), ''0123456789abcdef'' ! (n mod 16)]"

definition repr_char :: "char \<Rightarrow> char \<Rightarrow> string" where
  "repr_char q c =
     (if c = CHR 0x5C then [CHR 0x5C, CHR 0x5C]
      else if c = q then [CHR 0x5C, q]
      else if c = CHR 0x0A then [CHR 0x5C, CHR ''n'']
      else if c = CHR 0x0D then [CHR 0x5C, CHR ''r'']
      else if c = CHR 0x09 then [CHR 0x5C, CHR ''t'']
      else if (of_char c :: nat) < 32 \<or> c = CHR 0x7F then [CHR 0x5C, CHR ''x''] @ hex2 (of_char c)
      else [c])"

definition repr_str :: "string \<Rightarrow> string" where
  "repr_str s =
     (let q = (if CHR 0x27 \<in> set s \<and> CHR 0x22 \<notin> set s then CHR 0x22 else CHR 0x27)
      in [q] @ concat (map (repr_char q) s) @ [q])"

fun py_join :: "string \<Rightarrow> string list \<Rightarrow> string" where
  "py_join sep [] = []"
| "py_join sep [x] = x"
| "py_join sep (x # y # ys) = x @ sep @ py_join sep (y # ys)"

fun key_val :: "pykey \<Rightarrow> pyval" where
  "key_val KNone = PNone"
| "key_val (KBool b) = PBool b"
| "key_val (KInt i) = PInt i"
| "key_val (KStr s) = PStr s"

fun repr_key :: "pykey \<Rightarrow> string" where
  "repr_key KNone = ''None''"
| "repr_key (KBool b) = (if b then ''True'' else ''False'')"
| "repr_key (KInt i) = str_int i"
| "repr_key (KStr s) = repr_str s"

fun py_repr :: "pyval \<Rightarrow> string" where
  "py_repr PNone = ''None''"
| "py_repr (PBool b) = (if b then ''True'' else ''False'')"
| "py_repr (PInt i) = str_int i"
| "py_repr (PStr s) = repr_str s"
| "py_repr (PList xs) = ''['' @ py_join '', '' (map py_repr xs) @ '']''"
| "py_repr (PDict kvs) =
     ''{'' @ py_join '', '' (map (\<lambda>(k, v). repr_key k @ '': '' @ py_repr v) kvs) @ ''}''"

text \<open>\<^verbatim>\<open>str(v)\<close>, as an f-string applies it to a value.\<close>

definition py_str :: "pyval \<Rightarrow> string" where
  "py_str v = (case v of PStr s \<Rightarrow> s | _ \<Rightarrow> py_repr v)"

fun type_name :: "pyval \<Rightarrow> string" where
  "type_name PNone = ''NoneType''"
| "type_name (PBool b) = ''bool''"
| "type_name (PInt i) = ''int''"
| "type_name (PStr s) = ''str''"
| "type_name (PList xs) = ''list''"
| "type_name (PDict kvs) = ''dict''"

subsection \<open>The built-in operations the validator uses\<close>

text \<open>Truthiness, as \<^verbatim>\<open>bool(v)\<close> and the operator \<^verbatim>\<open>or\<close> see it.\<close>

fun truthy :: "pyval \<Rightarrow> bool" where
  "truthy PNone = False"
| "truthy (PBool b) = b"
| "truthy (PInt i) = (i \<noteq> 0)"
| "truthy (PStr s) = (s \<noteq> [])"
| "truthy (PList xs) = (xs \<noteq> [])"
| "truthy (PDict kvs) = (kvs \<noteq> [])"

definition py_or :: "pyval \<Rightarrow> pyval \<Rightarrow> pyval" where
  "py_or a b = (if truthy a then a else b)"

text \<open>\<^verbatim>\<open>v[k]\<close> for a string key.\<close>

fun py_subscript :: "pyval \<Rightarrow> string \<Rightarrow> exn + pyval" where
  "py_subscript (PDict kvs) k =
     (case map_of kvs (KStr k) of
        Some v \<Rightarrow> Inr v
      | None \<Rightarrow> Inl (KeyError (repr_str k)))"
| "py_subscript (PList xs) k = Inl (TypeError ''list indices must be integers or slices, not str'')"
| "py_subscript (PStr s) k = Inl (TypeError (''string indices must be integers, not 'str'' @ [CHR 0x27]))"
| "py_subscript v k = Inl (TypeError ([CHR 0x27] @ type_name v @ ''' object is not subscriptable''))"

text \<open>\<^verbatim>\<open>v.get(k, d)\<close>: only a dictionary has the method.\<close>

fun py_get :: "pyval \<Rightarrow> string \<Rightarrow> pyval \<Rightarrow> exn + pyval" where
  "py_get (PDict kvs) k d = Inr (case map_of kvs (KStr k) of Some v \<Rightarrow> v | None \<Rightarrow> d)"
| "py_get v k d = Inl (AttributeError ([CHR 0x27] @ type_name v @ ''' object has no attribute 'get'' @ [CHR 0x27]))"

definition is_space :: "char \<Rightarrow> bool" where
  "is_space c = (c \<in> set [CHR 0x20, CHR 0x09, CHR 0x0A, CHR 0x0B, CHR 0x0C, CHR 0x0D,
                           CHR 0x1C, CHR 0x1D, CHR 0x1E, CHR 0x1F])"

definition strip :: "string \<Rightarrow> string" where
  "strip s = rev (dropWhile is_space (rev (dropWhile is_space s)))"

text \<open>\<^verbatim>\<open>v.strip()\<close>: only a string has the method.\<close>

fun py_strip :: "pyval \<Rightarrow> exn + string" where
  "py_strip (PStr s) = Inr (strip s)"
| "py_strip v = Inl (AttributeError ([CHR 0x27] @ type_name v @ ''' object has no attribute 'strip'' @ [CHR 0x27]))"

definition is_digit :: "char \<Rightarrow> bool" where
  "is_digit c = (c \<in> set ''0123456789'')"

fun digits_val :: "string \<Rightarrow> nat \<Rightarrow> nat option" where
  "digits_val [] acc = Some acc"
| "digits_val (c # cs) acc =
     (if is_digit c then digits_val cs (10 * acc + (of_char c - 48))
      else if c = CHR ''_'' \<and> cs \<noteq> [] \<and> is_digit (hd cs) then digits_val cs acc
      else None)"

text \<open>The decimal literals \<^verbatim>\<open>int(s)\<close> accepts: surrounding whitespace, a sign, digits
  with single underscores between them.\<close>

definition parse_int :: "string \<Rightarrow> int option" where
  "parse_int s =
     (case strip s of
        [] \<Rightarrow> None
      | c # cs \<Rightarrow>
          if c = CHR ''-'' \<or> c = CHR ''+'' then
            (if cs \<noteq> [] \<and> is_digit (hd cs)
             then map_option (\<lambda>n. if c = CHR ''-'' then - int n else int n) (digits_val cs 0)
             else None)
          else if is_digit c then map_option int (digits_val (c # cs) 0)
          else None)"

text \<open>\<^verbatim>\<open>int(v)\<close>.\<close>

fun py_int :: "pyval \<Rightarrow> exn + int" where
  "py_int (PInt i) = Inr i"
| "py_int (PBool b) = Inr (if b then 1 else 0)"
| "py_int (PStr s) =
     (case parse_int s of
        Some i \<Rightarrow> Inr i
      | None \<Rightarrow> Inl (ValueError (''invalid literal for int() with base 10: '' @ repr_str s)))"
| "py_int v =
     Inl (TypeError (''int() argument must be a string, a bytes-like object or a real number, not ''
                     @ [CHR 0x27] @ type_name v @ [CHR 0x27]))"

text \<open>The characters of a string: a byte and the UTF-8 continuation bytes after it.\<close>

definition is_cont :: "char \<Rightarrow> bool" where
  "is_cont c = (128 \<le> (of_char c :: nat) \<and> (of_char c :: nat) < 192)"

fun py_chars :: "string \<Rightarrow> string list" where
  "py_chars [] = []"
| "py_chars (c # cs) =
     (case py_chars cs of
        [] \<Rightarrow> [[c]]
      | g # gs \<Rightarrow> if g \<noteq> [] \<and> is_cont (hd g) then (c # g) # gs else [c] # g # gs)"

text \<open>Iteration (\<^verbatim>\<open>for x in v\<close>, \<^verbatim>\<open>list(v)\<close>): a list gives its elements, a string its
  characters, a dictionary its keys.\<close>

fun py_iter :: "pyval \<Rightarrow> exn + pyval list" where
  "py_iter (PList xs) = Inr xs"
| "py_iter (PStr s) = Inr (map PStr (py_chars s))"
| "py_iter (PDict kvs) = Inr (map (\<lambda>(k, v). key_val k) kvs)"
| "py_iter v = Inl (TypeError ([CHR 0x27] @ type_name v @ ''' object is not iterable''))"

text \<open>\<^verbatim>\<open>v == n\<close> for an integer and \<^verbatim>\<open>v == s\<close> for a string: a boolean equals the
  integer it counts as, nothing but a string equals a string.\<close>

fun py_eq_int :: "pyval \<Rightarrow> int \<Rightarrow> bool" where
  "py_eq_int (PInt i) n = (i = n)"
| "py_eq_int (PBool b) n = ((if b then 1 else 0) = n)"
| "py_eq_int v n = False"

fun py_eq_str :: "pyval \<Rightarrow> string \<Rightarrow> bool" where
  "py_eq_str (PStr s) t = (s = t)"
| "py_eq_str v t = False"

text \<open>Equality of a list of values with a list of integers: same length, equal elements.\<close>

fun py_list_eq :: "pyval list \<Rightarrow> int list \<Rightarrow> bool" where
  "py_list_eq [] [] = True"
| "py_list_eq (v # vs) (n # ns) = (py_eq_int v n \<and> py_list_eq vs ns)"
| "py_list_eq vs ns = False"

text \<open>\<^verbatim>\<open>v in {s1, s2, ...}\<close>: membership in a set of strings hashes the value.\<close>

fun py_in_strs :: "pyval \<Rightarrow> string list \<Rightarrow> exn + bool" where
  "py_in_strs (PStr s) ts = Inr (s \<in> set ts)"
| "py_in_strs (PList xs) ts = Inl (TypeError (''unhashable type: 'list'' @ [CHR 0x27]))"
| "py_in_strs (PDict kvs) ts = Inl (TypeError (''unhashable type: 'dict'' @ [CHR 0x27]))"
| "py_in_strs v ts = Inr False"

text \<open>\<^verbatim>\<open>s in v\<close> for a string: a key of a dictionary, an element of a list, a substring
  of a string.\<close>

fun py_contains :: "pyval \<Rightarrow> string \<Rightarrow> exn + bool" where
  "py_contains (PDict kvs) s = Inr (KStr s \<in> set (map fst kvs))"
| "py_contains (PList xs) s = Inr (PStr s \<in> set xs)"
| "py_contains (PStr t) s = Inr (sublist s t)"
| "py_contains v s = Inl (TypeError (''argument of type '' @ [CHR 0x27] @ type_name v @ ''' is not iterable''))"

text \<open>\<^verbatim>\<open>s.split(sep)\<close> for a one-character separator.\<close>

fun split_on :: "char \<Rightarrow> string \<Rightarrow> string list" where
  "split_on sep [] = [[]]"
| "split_on sep (c # cs) =
     (if c = sep then [] # split_on sep cs
      else (case split_on sep cs of
              p # ps \<Rightarrow> (c # p) # ps
            | [] \<Rightarrow> [[c]]))"

subsection \<open>The product \<^verbatim>\<open>0.7 * total_laps\<close> in double precision\<close>

fun bitlen :: "nat \<Rightarrow> nat" where
  "bitlen n = (if n = 0 then 0 else Suc (bitlen (n div 2)))"

text \<open>The nearest number with a 53-bit significand, ties to the even significand.\<close>

definition fl_round :: "nat \<Rightarrow> nat" where
  "fl_round n =
     (if bitlen n \<le> 53 then n
      else let k = bitlen n - 53; q = n div 2 ^ k; r = n mod 2 ^ k; h = 2 ^ (k - 1)
           in (if h < r \<or> (r = h \<and> odd q) then q + 1 else q) * 2 ^ k)"

text \<open>The conversion of an integer to a double, which overflows from \<open>2 ^ 1024\<close> on.\<close>

definition float_of_int :: "int \<Rightarrow> exn + int" where
  "float_of_int i =
     (let a = int (fl_round (nat \<bar>i\<bar>))
      in if 2 ^ 1024 \<le> a then Inl (OverflowError ''int too large to convert to float'')
         else Inr (if i < 0 then - a else a))"

text \<open>The double \<^verbatim>\<open>0.7\<close> is \<open>6305039478318694 / 2 ^ 53\<close>.  \<open>mul_07 x\<close> is the rounded
  product with the double \<open>x\<close>, scaled by \<open>2 ^ 53\<close>.\<close>

definition mul_07 :: "int \<Rightarrow> int" where
  "mul_07 x =
     (let p = int (fl_round (6305039478318694 * nat \<bar>x\<bar>))
      in if x < 0 then - p else p)"

text \<open>\<^verbatim>\<open>tlen > 0.7 * total_laps\<close>: an integer and a double compare by their exact values.\<close>

definition exceeds_07 :: "int \<Rightarrow> int \<Rightarrow> exn + bool" where
  "exceeds_07 tlen laps = bind_r (float_of_int laps) (\<lambda>x. Inr (mul_07 x < tlen * 2 ^ 53))"


section \<open>The domain validator of \<^verbatim>\<open>tools/strat.py\<close>\<close>

text \<open>The values that \<^verbatim>\<open>domain_validate_strategy\<close> extracts inside its second
  \<^verbatim>\<open>try\<close> block, under the names of its local variables.\<close>

record parsed =
  total_laps :: int
  inv_map :: pyval
  allow_used :: bool
  min_compounds :: int
  max_pitstops :: int
  stints :: pyval
  uv_pit_laps :: "pyval list"

text \<open>\<^verbatim>\<open>data.get("assumptions", {}).get("constraints", {}) or {}\<close>, and the same for
  \<^verbatim>\<open>"tire_availability"\<close>.\<close>

definition assumption_of :: "pyval \<Rightarrow> string \<Rightarrow> exn + pyval" where
  "assumption_of data k =
     bind_r (py_get data ''assumptions'' (PDict [])) (\<lambda>assumptions.
     bind_r (py_get assumptions k (PDict [])) (\<lambda>v.
     Inr (py_or v (PDict []))))"

definition parse_document :: "pyval \<Rightarrow> exn + parsed" where
  "parse_document data =
     bind_r (py_subscript data ''metadata'') (\<lambda>metadata.
     bind_r (py_subscript metadata ''track'') (\<lambda>track.
     bind_r (py_subscript track ''laps'') (\<lambda>laps.
     bind_r (py_int laps) (\<lambda>total_laps'.
     bind_r (assumption_of data ''constraints'') (\<lambda>constraints.
     bind_r (assumption_of data ''tire_availability'') (\<lambda>inventory.
     bind_r (py_get constraints ''allow_used_tyre'' (PBool False)) (\<lambda>au.
     bind_r (py_get constraints ''min_compounds_required'' (PInt 0)) (\<lambda>mc.
     bind_r (py_int mc) (\<lambda>min_compounds'.
     bind_r (py_get constraints ''max_pitstops'' (PInt 99)) (\<lambda>mp.
     bind_r (py_int mp) (\<lambda>max_pitstops'.
     bind_r (py_get data ''stints'' (PList [])) (\<lambda>st.
     bind_r (py_get data ''user_view'' (PDict [])) (\<lambda>uv.
     let user_view = py_or uv (PDict []) in
     bind_r (py_get user_view ''planned_pit_laps'' (PList [])) (\<lambda>pl.
     bind_r (py_iter (py_or pl (PList []))) (\<lambda>uv_pit_laps'.
     Inr \<lparr> total_laps = total_laps', inv_map = inventory, allow_used = truthy au,
           min_compounds = min_compounds', max_pitstops = max_pitstops',
           stints = py_or st (PList []), uv_pit_laps = uv_pit_laps' \<rparr>)))))))))))))))"

subsection \<open>The messages\<close>

definition msg_min_stints :: string where
  "msg_min_stints =
     ''Must schedule '' @ [CHR 0xE2, CHR 0x89, CHR 0xA5]
     @ '' 2 stints for dry/normal conditions; found < 2.''"

definition msg_min_compounds :: "nat \<Rightarrow> int \<Rightarrow> string" where
  "msg_min_compounds n m =
     ''Uses '' @ str_int (int n) @ '' dry compound(s) but min_compounds_required='' @ str_int m @ ''.''"

definition msg_max_pitstops :: "nat \<Rightarrow> int \<Rightarrow> string" where
  "msg_max_pitstops n m =
     ''Planned stops='' @ str_int (int n) @ '' exceed max_pitstops='' @ str_int m @ ''.''"

definition msg_final_only :: "pyval \<Rightarrow> string" where
  "msg_final_only sid =
     ''Only final stint may have planned_inlap=0; found at stint_id='' @ py_str sid @ ''.''"

definition msg_continuity :: "pyval \<Rightarrow> pyval \<Rightarrow> int \<Rightarrow> int \<Rightarrow> string" where
  "msg_continuity sid_prev sid_cur expected got =
     ''Stint continuity violated between stint_id='' @ py_str sid_prev @ '' and '' @ py_str sid_cur
     @ '' (expected start_lap='' @ str_int expected @ '', got '' @ str_int got @ '').''"

definition msg_summary :: "pyval list \<Rightarrow> int list \<Rightarrow> string" where
  "msg_summary uv expected =
     ''user_view.planned_pit_laps '' @ py_repr (PList uv) @ '' must equal non-zero planned_inlap ''
     @ py_repr (PList (map PInt expected)) @ ''.''"

definition msg_used_set :: "pyval \<Rightarrow> string" where
  "msg_used_set sid = ''allow_used_tyre=false but stint_id='' @ py_str sid @ '' uses 'used' set.''"

definition msg_inventory_short :: "nat \<Rightarrow> string \<Rightarrow> pyval \<Rightarrow> string" where
  "msg_inventory_short count ck have =
     ''Stints require '' @ str_int (int count) @ '' of '' @ ck @ '' but inventory has '' @ py_str have @ ''.''"

definition msg_inventory_missing :: "string \<Rightarrow> nat \<Rightarrow> string" where
  "msg_inventory_missing ck count =
     ''Inventory missing '' @ ck @ ''; cannot allocate '' @ str_int (int count) @ '' set(s).''"

definition msg_marathon :: "pyval \<Rightarrow> int \<Rightarrow> string" where
  "msg_marathon compound tlen =
     ''Dry stint '' @ py_str compound @ '' length '' @ str_int tlen @ '' laps > 70% of race; likely unrealistic.''"

subsection \<open>The seven checks\<close>

definition wet_compounds :: "string list" where
  "wet_compounds = [''Wet'', ''Intermediate'']"

definition dry_compounds :: "string list" where
  "dry_compounds = [''Soft'', ''Medium'', ''Hard'']"

text \<open>\<^verbatim>\<open>compounds = [s.get("compound", "").strip() for s in stints]\<close>\<close>

definition compounds_of :: "pyval list \<Rightarrow> exn + string list" where
  "compounds_of ss = map_r (\<lambda>s. bind_r (py_get s ''compound'' (PStr [])) py_strip) ss"

text \<open>Check 1: at least two stints, unless every compound is a wet one.\<close>

definition check_min_stints :: "pyval list \<Rightarrow> string list \<Rightarrow> string list" where
  "check_min_stints ss compounds =
     (let only_wet = (list_all (\<lambda>c. c \<in> set wet_compounds) compounds \<and> 0 < length compounds)
      in if length ss < 2 \<and> \<not> only_wet then [msg_min_stints] else [])"

text \<open>Check 2: enough distinct dry compounds, when a dry compound appears.\<close>

definition check_min_compounds :: "string list \<Rightarrow> int \<Rightarrow> string list" where
  "check_min_compounds compounds min_compounds' =
     (let dry_compounds_used = remdups (filter (\<lambda>c. c \<in> set dry_compounds) compounds)
      in if dry_compounds_used \<noteq> [] \<and> 0 < min_compounds'
         then (if int (length dry_compounds_used) < min_compounds'
               then [msg_min_compounds (length dry_compounds_used) min_compounds'] else [])
         else [])"

text \<open>\<^verbatim>\<open>int(s.get(field, 0) or 0)\<close>\<close>

definition int_field :: "string \<Rightarrow> pyval \<Rightarrow> exn + int" where
  "int_field field s = bind_r (py_get s field (PInt 0)) (\<lambda>v. py_int (py_or v (PInt 0)))"

definition planned_inlaps_of :: "pyval list \<Rightarrow> exn + int list" where
  "planned_inlaps_of ss = map_r (int_field ''planned_inlap'') ss"

text \<open>Check 3: the number of stops.\<close>

definition actual_stops_of :: "int list \<Rightarrow> nat" where
  "actual_stops_of planned_inlaps = length (filter (\<lambda>x. x \<noteq> 0 \<and> 0 < x) planned_inlaps)"

definition check_max_pitstops :: "int list \<Rightarrow> int \<Rightarrow> string list" where
  "check_max_pitstops planned_inlaps max_pitstops' =
     (let actual_stops = actual_stops_of planned_inlaps
      in if max_pitstops' < int actual_stops then [msg_max_pitstops actual_stops max_pitstops'] else [])"

text \<open>Check 4: one pass of the loop \<^verbatim>\<open>for i in range(1, len(stints))\<close>.\<close>

definition continuity_at :: "pyval list \<Rightarrow> nat \<Rightarrow> exn + string list" where
  "continuity_at ss i =
     (let prev = ss ! (i - 1); cur = ss ! i in
      bind_r (int_field ''planned_inlap'' prev) (\<lambda>prev_in.
      bind_r (int_field ''start_lap'' cur) (\<lambda>cur_start.
      bind_r (py_get prev ''stint_id'' PNone) (\<lambda>sid_prev.
      bind_r (py_get cur ''stint_id'' PNone) (\<lambda>sid_cur.
      Inr ((if prev_in = 0 \<and> i \<noteq> length ss - 1 then [msg_final_only sid_prev] else [])
           @ (if prev_in \<noteq> 0 \<and> cur_start \<noteq> prev_in + 1
              then [msg_continuity sid_prev sid_cur (prev_in + 1) cur_start] else [])))))))"

definition check_continuity :: "pyval list \<Rightarrow> exn + string list" where
  "check_continuity ss = bind_r (map_r (continuity_at ss) [1..<length ss]) (\<lambda>ess. Inr (concat ess))"

text \<open>Check 5: the summary lists the pit laps.\<close>

definition expected_uv_of :: "int list \<Rightarrow> int list" where
  "expected_uv_of planned_inlaps = sort (filter (\<lambda>x. 0 < x) planned_inlaps)"

definition check_summary :: "pyval list \<Rightarrow> int list \<Rightarrow> string list" where
  "check_summary uv planned_inlaps =
     (let expected_uv = expected_uv_of planned_inlaps
      in if \<not> py_list_eq uv expected_uv then [msg_summary uv expected_uv] else [])"

text \<open>Check 6, first loop: one stint gives the key it uses and, for a used set that is
  not allowed, an error.\<close>

definition tally_stint :: "bool \<Rightarrow> pyval \<Rightarrow> exn + (string \<times> string list)" where
  "tally_stint allow_used' s =
     bind_r (py_get s ''compound'' (PStr [])) (\<lambda>compound.
     bind_r (py_get s ''set_condition'' (PStr ''new'')) (\<lambda>cond.
     bind_r (py_get s ''stint_id'' PNone) (\<lambda>sid.
     Inr (py_str compound @ ''_'' @ py_str cond,
          if py_eq_str cond ''used'' \<and> \<not> allow_used' then [msg_used_set sid] else []))))"

text \<open>\<^verbatim>\<open>usage[key] = usage.get(key, 0) + 1\<close> on a dictionary in insertion order.\<close>

fun bump :: "string \<Rightarrow> (string \<times> nat) list \<Rightarrow> (string \<times> nat) list" where
  "bump key [] = [(key, 1)]"
| "bump key ((k, n) # u) = (if k = key then (k, n + 1) # u else (k, n) # bump key u)"

definition usage_of :: "string list \<Rightarrow> (string \<times> nat) list" where
  "usage_of keys = foldl (\<lambda>u key. bump key u) [] keys"

text \<open>Check 6, second loop: one entry of \<^verbatim>\<open>usage.items()\<close>.\<close>

definition check_inventory_key :: "pyval \<Rightarrow> string \<times> nat \<Rightarrow> exn + string list" where
  "check_inventory_key inventory kc =
     (let key = fst kc; count = snd kc; parts = split_on CHR ''_'' key in
      if length parts = 2 then
        (let ck = parts ! 0 @ ''_'' @ parts ! 1 in
         bind_r (py_contains inventory ck) (\<lambda>present.
         if present then
           bind_r (py_get inventory ck (PInt 0)) (\<lambda>v.
           bind_r (py_int v) (\<lambda>have.
           if have < int count then
             bind_r (py_get inventory ck PNone) (\<lambda>shown. Inr [msg_inventory_short count ck shown])
           else Inr []))
         else Inr [msg_inventory_missing ck count]))
      else Inr [])"

definition check_inventory :: "bool \<Rightarrow> pyval \<Rightarrow> pyval list \<Rightarrow> exn + string list" where
  "check_inventory allow_used' inventory ss =
     bind_r (map_r (tally_stint allow_used') ss) (\<lambda>ts.
     bind_r (map_r (check_inventory_key inventory) (usage_of (map fst ts))) (\<lambda>ess.
     Inr (concat (map snd ts) @ concat ess)))"

text \<open>Check 7: a warning for a long dry stint.\<close>

definition marathon_stint :: "int \<Rightarrow> pyval \<Rightarrow> exn + string list" where
  "marathon_stint total_laps' s =
     bind_r (py_get s ''compound'' (PStr [])) (\<lambda>compound.
     bind_r (py_in_strs compound dry_compounds) (\<lambda>dry.
     if dry then
       bind_r (int_field ''target_len_laps'' s) (\<lambda>tlen.
       bind_r (exceeds_07 tlen total_laps') (\<lambda>long.
       Inr (if long then [msg_marathon compound tlen] else [])))
     else Inr []))"

definition check_marathon :: "int \<Rightarrow> pyval list \<Rightarrow> exn + string list" where
  "check_marathon total_laps' ss = bind_r (map_r (marathon_stint total_laps') ss) (\<lambda>wss. Inr (concat wss))"

subsection \<open>The whole run\<close>

text \<open>The lists \<^verbatim>\<open>errors\<close> and \<^verbatim>\<open>warnings\<close> when the checks have run: each check appends
  its messages in turn, and an exception in any of them ends the call.\<close>

definition run_checks :: "parsed \<Rightarrow> exn + (string list \<times> string list)" where
  "run_checks p =
     bind_r (py_iter (stints p)) (\<lambda>ss.
     bind_r (compounds_of ss) (\<lambda>compounds.
     bind_r (planned_inlaps_of ss) (\<lambda>planned_inlaps.
     bind_r (check_continuity ss) (\<lambda>e4.
     bind_r (check_inventory (allow_used p) (inv_map p) ss) (\<lambda>e6.
     bind_r (check_marathon (total_laps p) ss) (\<lambda>warnings.
     Inr (check_min_stints ss compounds
          @ check_min_compounds compounds (min_compounds p)
          @ check_max_pitstops planned_inlaps (max_pitstops p)
          @ e4
          @ check_summary (uv_pit_laps p) planned_inlaps
          @ e6,
          warnings)))))))"

definition render :: "string list \<Rightarrow> string list \<Rightarrow> string" where
  "render errors warnings =
     (if errors \<noteq> [] then
        ''ERRORS:'' @ [CHR 0x0A] @ ''- '' @ py_join ([CHR 0x0A] @ ''- '') errors
        @ (if warnings \<noteq> []
           then [CHR 0x0A, CHR 0x0A] @ ''WARNINGS:'' @ [CHR 0x0A] @ ''- ''
                @ py_join ([CHR 0x0A] @ ''- '') warnings
           else [])
      else if warnings \<noteq> [] then
        ''WARNINGS:'' @ [CHR 0x0A] @ ''- '' @ py_join ([CHR 0x0A] @ ''- '') warnings
      else ''OK'')"

text \<open>The tool takes what \<^verbatim>\<open>yaml.safe_load\<close> made of its text: the message of the
  parser's exception, or the loaded value.  \<open>Inl\<close> is an exception that leaves the
  function, \<open>Inr\<close> the string it returns.\<close>

definition domain_validate_strategy :: "string + pyval \<Rightarrow> exn + string" where
  "domain_validate_strategy loaded =
     (case loaded of
        Inl e \<Rightarrow> Inr (''YAML parse error: '' @ e)
      | Inr data \<Rightarrow>
          (case parse_document data of
             Inl e \<Rightarrow> Inr (''Domain parse error: '' @ exn_str e)
           | Inr p \<Rightarrow> bind_r (run_checks p) (\<lambda>(errors, warnings). Inr (render errors warnings))))"


section \<open>Documents\<close>

text \<open>A stint with its id, compound, set condition, start lap and planned in-lap, and a
  document with the race distance, the constraints, the tyre inventory, the summary's pit
  laps and the stints.\<close>

definition mk_stint :: "int \<Rightarrow> pyval \<Rightarrow> string \<Rightarrow> int \<Rightarrow> int \<Rightarrow> pyval" where
  "mk_stint sid compound cond start inlap =
     PDict [(KStr ''stint_id'', PInt sid), (KStr ''compound'', compound),
            (KStr ''set_condition'', PStr cond), (KStr ''start_lap'', PInt start),
            (KStr ''planned_inlap'', PInt inlap)]"

definition mk_doc ::
  "int \<Rightarrow> (pykey \<times> pyval) list \<Rightarrow> (pykey \<times> pyval) list \<Rightarrow> pyval list \<Rightarrow> pyval list \<Rightarrow> pyval" where
  "mk_doc laps constraints inventory pit_laps ss =
     PDict [(KStr ''metadata'', PDict [(KStr ''track'', PDict [(KStr ''laps'', PInt laps)])]),
            (KStr ''assumptions'', PDict [(KStr ''tire_availability'', PDict inventory),
                                          (KStr ''constraints'', PDict constraints)]),
            (KStr ''user_view'', PDict [(KStr ''planned_pit_laps'', PList pit_laps)]),
            (KStr ''stints'', PList ss)]"

text \<open>Scenario A of the specification, for a race of \<open>laps\<close> laps and \<open>n\<close> new
  Intermediate sets in the inventory (the scenario has one).\<close>

definition scenario_A :: "int \<Rightarrow> int \<Rightarrow> pyval" where
  "scenario_A laps n =
     mk_doc laps [(KStr ''min_compounds_required'', PInt 2)]
       [(KStr ''Intermediate_new'', PInt n), (KStr ''Wet_new'', PInt 1)]
       [PInt 17, PInt 38]
       [mk_stint 1 (PStr ''Intermediate'') ''new'' 1 17,
        mk_stint 2 (PStr ''Wet'') ''new'' 18 38,
        mk_stint 3 (PStr ''Intermediate'') ''new'' 39 0]"

text \<open>A report without errors: \<^verbatim>\<open>OK\<close>, or warnings only.\<close>

definition accepted :: "exn + string \<Rightarrow> bool" where
  "accepted r = (case r of Inl e \<Rightarrow> False | Inr t \<Rightarrow> t = ''OK'' \<or> take 9 t = ''WARNINGS:'')"

text \<open>Two wet-weather stints that both run to the flag.\<close>

definition two_open_stints :: pyval where
  "two_open_stints =
     mk_doc 57 [] [(KStr ''Intermediate_new'', PInt 1), (KStr ''Wet_new'', PInt 1)] []
       [mk_stint 1 (PStr ''Intermediate'') ''new'' 1 0, mk_stint 2 (PStr ''Wet'') ''new'' 30 0]"

text \<open>A stint whose compound is left empty in the YAML text.\<close>

definition null_compound_doc :: pyval where
  "null_compound_doc = mk_doc 57 [] [] [] [mk_stint 1 PNone ''new'' 1 0]"

text \<open>Stints with a negative planned in-lap: laps \<open>-3\<close> and \<open>0\<close>, the second stint
  starting on lap \<open>-2\<close>, with an empty summary; and the same with \<open>max_pitstops = 0\<close>.\<close>

definition negative_stints :: "pyval list" where
  "negative_stints =
     [mk_stint 1 (PStr ''Intermediate'') ''new'' 1 (- 3), mk_stint 2 (PStr ''Wet'') ''new'' (- 2) 0]"

definition negative_inlap_doc :: pyval where
  "negative_inlap_doc =
     mk_doc 57 [] [(KStr ''Intermediate_new'', PInt 1), (KStr ''Wet_new'', PInt 1)] [] negative_stints"

definition negative_stop_doc :: pyval where
  "negative_stop_doc =
     mk_doc 57 [(KStr ''max_pitstops'', PInt 0)]
       [(KStr ''Intermediate_new'', PInt 1), (KStr ''Wet_new'', PInt 1)] [] negative_stints"

text \<open>The specification's words for checks 5 and 3: the ascending sequence of the
  non-zero planned in-laps, and the number of stints whose planned in-lap is non-zero.\<close>

definition spec_pit_laps :: "int list \<Rightarrow> int list" where
  "spec_pit_laps planned_inlaps = sort (filter (\<lambda>x. x \<noteq> 0) planned_inlaps)"

definition spec_actual_stops :: "int list \<Rightarrow> nat" where
  "spec_actual_stops planned_inlaps = length (filter (\<lambda>x. x \<noteq> 0) planned_inlaps)"

text \<open>A three-stint plan that breaks several rules at once: two stops where one is allowed,
  a summary that lists one of them, a used set that is not allowed and not in the
  inventory, two new Soft sets where the inventory has one, and a 45-lap Hard stint in a
  57-lap race.  The third stint has no \<open>set_condition\<close>, the constraints no
  \<open>allow_used_tyre\<close>.\<close>

definition overbooked_stints :: "pyval list" where
  "overbooked_stints =
     [PDict [(KStr ''stint_id'', PInt 1), (KStr ''compound'', PStr ''Hard''),
             (KStr ''set_condition'', PStr ''used''), (KStr ''start_lap'', PInt 1),
             (KStr ''planned_inlap'', PInt 20), (KStr ''target_len_laps'', PInt 45)],
      mk_stint 2 (PStr ''Soft'') ''new'' 21 40,
      PDict [(KStr ''stint_id'', PInt 3), (KStr ''compound'', PStr ''Soft''),
             (KStr ''start_lap'', PInt 41), (KStr ''planned_inlap'', PInt 0)]]"

definition overbooked_doc :: pyval where
  "overbooked_doc =
     mk_doc 57 [(KStr ''max_pitstops'', PInt 1)] [(KStr ''Soft_new'', PInt 1)] [PInt 20]
       overbooked_stints"

definition overbooked_parsed :: parsed where
  "overbooked_parsed =
     \<lparr> total_laps = 57, inv_map = PDict [(KStr ''Soft_new'', PInt 1)], allow_used = False,
       min_compounds = 0, max_pitstops = 1, stints = PList overbooked_stints,
       uv_pit_laps = [PInt 20] \<rparr>"

definition overbooked_errors :: "string list" where
  "overbooked_errors =
     [msg_max_pitstops 2 1, msg_summary [PInt 20] [20, 40], msg_used_set (PInt 1),
      msg_inventory_missing ''Hard_used'' 1, msg_inventory_short 2 ''Soft_new'' (PInt 1)]"

definition overbooked_warnings :: "string list" where
  "overbooked_warnings = [msg_marathon (PStr ''Hard'') 45]"

text \<open>\<open>heads ms cs\<close>: every message of \<open>ms\<close> starts with one of the characters \<open>cs\<close>.\<close>

definition heads :: "string list \<Rightarrow> string \<Rightarrow> bool" where
  "heads ms cs = list_all (\<lambda>m. m \<noteq> [] \<and> hd m \<in> set cs) ms"

section \<open>How the checks compose\<close>

lemma bind_r_Inr: "bind_r m f = Inr y \<longleftrightarrow> (\<exists>x. m = Inr x \<and> f x = Inr y)"
  by (cases m) (simp_all add: bind_r_def)

lemma map_r_Inr: "map_r f xs = Inr ys \<longleftrightarrow> list_all2 (\<lambda>x y. f x = Inr y) xs ys"
proof (induction xs arbitrary: ys)
  case Nil
  show ?case by auto
next
  case (Cons x xs)
  show ?case
    by (cases ys) (auto simp: bind_r_Inr Cons.IH)
qed

lemma heads_Nil: "heads [] cs" by (simp add: heads_def)
lemma heads_append: "heads (xs @ ys) cs \<longleftrightarrow> heads xs cs \<and> heads ys cs" by (auto simp add: heads_def)
lemma heads_concat: "heads (concat xss) cs \<longleftrightarrow> (\<forall>xs\<in>set xss. heads xs cs)"
  by (induction xss) (auto simp: heads_def)

lemma heads_map_r:
  "map_r f xs = Inr yss \<Longrightarrow> (\<And>x ys. f x = Inr ys \<Longrightarrow> heads ys cs) \<Longrightarrow> heads (concat yss) cs"
proof (induction xs arbitrary: yss)
  case Nil
  then show ?case by (simp add: heads_def)
next
  case (Cons x xs)
  from Cons.prems(1) obtain y ys where *: "f x = Inr y" "map_r f xs = Inr ys" "yss = y # ys"
    by (auto simp: bind_r_Inr)
  show ?case using * Cons.IH[OF *(2) Cons.prems(2)] Cons.prems(2)[OF *(1)]
    by (simp add: heads_append)
qed

lemma heads_min_stints: "heads (check_min_stints ss cs) ''M''"
  by (simp add: check_min_stints_def heads_def msg_min_stints_def Let_def)
lemma heads_min_compounds: "heads (check_min_compounds cs n) ''U''"
  by (simp add: check_min_compounds_def heads_def msg_min_compounds_def Let_def)
lemma heads_max_pitstops: "heads (check_max_pitstops pl n) ''P''"
  by (simp add: check_max_pitstops_def heads_def msg_max_pitstops_def Let_def)
lemma heads_summary: "heads (check_summary uv pl) ''u''"
  by (simp add: check_summary_def heads_def msg_summary_def Let_def)
lemma heads_continuity: "check_continuity ss = Inr e4 \<Longrightarrow> heads e4 ''OS''"
  unfolding check_continuity_def bind_r_Inr
  apply clarify
  apply (erule heads_map_r)
  apply (auto simp: continuity_at_def bind_r_Inr Let_def heads_def msg_final_only_def msg_continuity_def)
  done
lemma heads_tally: "tally_stint au s = Inr (k, es) \<Longrightarrow> heads es ''a''"
  by (auto simp: tally_stint_def bind_r_Inr heads_def msg_used_set_def)
lemma heads_inventory_key: "check_inventory_key iv kc = Inr es \<Longrightarrow> heads es ''SI''"
  by (auto simp: check_inventory_key_def bind_r_Inr heads_def Let_def msg_inventory_short_def msg_inventory_missing_def split: if_splits)
lemma heads_marathon: "check_marathon n ss = Inr ws \<Longrightarrow> heads ws ''D''"
  unfolding check_marathon_def bind_r_Inr
  apply clarify
  apply (erule heads_map_r)
  apply (auto simp: marathon_stint_def bind_r_Inr heads_def msg_marathon_def split: if_splits)
  done

lemma run_checks_Inr:
  "run_checks p = Inr (es, ws) \<longleftrightarrow>
     (\<exists>ss cs pl e4 e6. py_iter (stints p) = Inr ss \<and> compounds_of ss = Inr cs
        \<and> planned_inlaps_of ss = Inr pl \<and> check_continuity ss = Inr e4
        \<and> check_inventory (allow_used p) (inv_map p) ss = Inr e6
        \<and> check_marathon (total_laps p) ss = Inr ws
        \<and> es = check_min_stints ss cs @ check_min_compounds cs (min_compounds p)
               @ check_max_pitstops pl (max_pitstops p) @ e4
               @ check_summary (uv_pit_laps p) pl @ e6)"
  by (auto simp: run_checks_def bind_r_Inr)
lemma py_list_eq_all2: "py_list_eq vs ns = list_all2 py_eq_int vs ns"
  by (induction vs ns rule: py_list_eq.induct) simp_all

lemma all2_PInt: "list_all2 py_eq_int (map PInt us) ns \<longleftrightarrow> us = ns"
  by (induction us arbitrary: ns) (auto simp: list_all2_Cons1)

lemma heads_notin: "heads ms cs \<Longrightarrow> m \<noteq> [] \<Longrightarrow> hd m \<notin> set cs \<Longrightarrow> m \<notin> set ms"
  by (auto simp: heads_def list_all_iff)

lemma hd_max_pitstops: "msg_max_pitstops n k \<noteq> [] \<and> hd (msg_max_pitstops n k) = CHR ''P''"
  by (simp add: msg_max_pitstops_def)
lemma hd_summary: "msg_summary uv ex \<noteq> [] \<and> hd (msg_summary uv ex) = CHR ''u''"
  by (simp add: msg_summary_def)

lemma map_r_set: "map_r f xs = Inr ys \<Longrightarrow> y \<in> set ys \<Longrightarrow> \<exists>x\<in>set xs. f x = Inr y"
proof (induction xs arbitrary: ys)
  case Nil
  then show ?case by simp
next
  case (Cons x xs)
  from Cons.prems(1) obtain z zs where *: "f x = Inr z" "map_r f xs = Inr zs" "ys = z # zs"
    by (auto simp: bind_r_Inr)
  show ?case using * Cons.IH[OF *(2)] Cons.prems(2) by auto
qed

lemma pos_filter: "filter (\<lambda>x. x \<noteq> 0 \<and> 0 < x) pl = filter (\<lambda>x. 0 < x) (pl :: int list)"
  by (rule filter_cong) auto

lemma heads_inventory: "check_inventory au iv ss = Inr e6 \<Longrightarrow> heads e6 ''aSI''"
  unfolding check_inventory_def bind_r_Inr
proof clarify
  fix ts ess
  assume t: "map_r (tally_stint au) ss = Inr ts"
    and e: "map_r (check_inventory_key iv) (usage_of (map fst ts)) = Inr ess"
  have "\<forall>t\<in>set ts. \<exists>s. tally_stint au s = Inr t"
    using map_r_set[OF t] by blast
  then have "\<forall>t\<in>set ts. heads (snd t) ''a''"
    using heads_tally by (metis prod.collapse)
  then have 1: "heads (concat (map snd ts)) ''aSI''"
    by (auto simp: heads_concat heads_def list_all_iff)
  have "heads (concat ess) ''SI''"
    using e heads_inventory_key by (rule heads_map_r)
  then have 2: "heads (concat ess) ''aSI''" by (auto simp: heads_def list_all_iff)
  show "heads (concat (map snd ts) @ concat ess) ''aSI''" using 1 2 by (simp add: heads_append)
qed


section \<open>Scenario A\<close>

lemmas eval_defs =
  domain_validate_strategy_def parse_document_def assumption_of_def bind_r_def py_or_def
  run_checks_def compounds_of_def strip_def is_space_def check_min_stints_def
  check_min_compounds_def wet_compounds_def dry_compounds_def planned_inlaps_of_def
  int_field_def check_max_pitstops_def actual_stops_of_def check_continuity_def
  continuity_at_def check_summary_def expected_uv_of_def check_inventory_def tally_stint_def
  usage_of_def check_inventory_key_def check_marathon_def marathon_stint_def render_def
  py_str_def str_int_def mk_doc_def mk_stint_def Let_def upt_rec

text \<open>
  C2, as the specification states it: the Scenario A document, whose inventory holds one
  new Intermediate set, gets a report without errors.  It does not: the two Intermediate
  stints need two sets.
\<close>

theorem scenario_A_rejected:
  "\<not> accepted (domain_validate_strategy (Inr (scenario_A 57 1)))"
  by (simp add: accepted_def scenario_A_def eval_defs msg_inventory_short_def)

text \<open>
  C2, amended: for every race distance the Scenario A document gets exactly one error,
  the shortfall of new Intermediate sets, and no warning; no other check records
  anything, and with two such sets in the inventory the report is OK.
\<close>

theorem scenario_A_report:
  "domain_validate_strategy (Inr (scenario_A laps 1)) =
     Inr (''ERRORS:'' @ [CHR 0x0A] @ ''- Stints require 2 of Intermediate_new but inventory has 1.'')
   \<and> domain_validate_strategy (Inr (scenario_A laps 2)) = Inr ''OK''"
  by (simp add: scenario_A_def eval_defs msg_inventory_short_def)

section \<open>Continuity\<close>

text \<open>
  C1: a stint with \<open>planned_inlap = 0\<close> that is not the final stint is an error.  The
  loop's test \<^verbatim>\<open>i != len(stints) - 1\<close> compares the index of the current stint, so a
  next-to-last stint with \<open>planned_inlap = 0\<close> passes: here the first of two stints runs
  to the flag and the report is OK.
\<close>

theorem two_open_stints_pass:
  "domain_validate_strategy (Inr two_open_stints) = Inr ''OK''"
  by (simp add: two_open_stints_def eval_defs)

section \<open>Exceptions that leave the validator\<close>

text \<open>
  C6: the validator returns a report for every document that got past its two
  \<^verbatim>\<open>try\<close> blocks.  The stint fields are read after them: a stint whose compound is
  null ends the call with an AttributeError.
\<close>

theorem null_compound_raises:
  "domain_validate_strategy (Inr null_compound_doc) =
     Inl (AttributeError ([CHR 0x27] @ ''NoneType' object has no attribute 'strip'' @ [CHR 0x27]))"
  by (simp add: null_compound_doc_def eval_defs)


section \<open>The overbooked plan\<close>

lemma overbooked_parse: "parse_document overbooked_doc = Inr overbooked_parsed"
  by (simp add: overbooked_doc_def overbooked_parsed_def overbooked_stints_def eval_defs)

lemma overbooked_iter: "py_iter (stints overbooked_parsed) = Inr overbooked_stints"
  by (simp add: overbooked_parsed_def)

lemma overbooked_inlaps: "planned_inlaps_of overbooked_stints = Inr [20, 40, 0]"
  by (simp add: overbooked_stints_def eval_defs)

lemma overbooked_long: "exceeds_07 45 57 = Inr True"
  by (simp add: exceeds_07_def float_of_int_def fl_round_def mul_07_def bind_r_def Let_def)

lemma overbooked_short: "exceeds_07 0 57 = Inr False"
  by (simp add: exceeds_07_def float_of_int_def fl_round_def mul_07_def bind_r_def Let_def)

lemma overbooked_run: "run_checks overbooked_parsed = Inr (overbooked_errors, overbooked_warnings)"
  by (simp add: overbooked_parsed_def overbooked_stints_def overbooked_errors_def
      overbooked_warnings_def overbooked_long overbooked_short
      numeral_2_eq_2 [symmetric] eval_defs)

section \<open>The pit-stop ceiling\<close>

text \<open>
  C5, as the specification states it: the stops counted are the stints whose planned
  in-lap is non-zero.  The code counts the positive ones: with \<open>max_pitstops = 0\<close> and
  planned in-laps \<open>-3\<close> and \<open>0\<close> there is one non-zero in-lap, and the report is OK.
\<close>

theorem negative_inlap_not_a_stop:
  "domain_validate_strategy (Inr negative_stop_doc) = Inr ''OK''
   \<and> planned_inlaps_of negative_stints = Inr [- 3, 0]
   \<and> 0 < spec_actual_stops [- 3, 0]"
  by (simp add: negative_stop_doc_def negative_stints_def spec_actual_stops_def eval_defs)

text \<open>
  C5, amended: for every parsed document whose checks complete, the error
  \<^verbatim>\<open>Planned stops=n exceed max_pitstops=m.\<close>, with \<open>n\<close> the number of stints whose planned
  in-lap is positive and \<open>m\<close> the ceiling, is among the errors if and only if \<open>n > m\<close>.
\<close>

theorem pit_stop_ceiling:
  assumes "parse_document data = Inr p" and "run_checks p = Inr (es, ws)"
    and "py_iter (stints p) = Inr ss" and "planned_inlaps_of ss = Inr pl"
  shows "msg_max_pitstops (length (filter (\<lambda>x. 0 < x) pl)) (max_pitstops p) \<in> set es
         \<longleftrightarrow> max_pitstops p < int (length (filter (\<lambda>x. 0 < x) pl))"
proof -
  obtain cs e4 e6 where c: "check_continuity ss = Inr e4"
    "check_inventory (allow_used p) (inv_map p) ss = Inr e6"
    and es: "es = check_min_stints ss cs @ check_min_compounds cs (min_compounds p)
               @ check_max_pitstops pl (max_pitstops p) @ e4
               @ check_summary (uv_pit_laps p) pl @ e6"
    using assms by (auto simp: run_checks_Inr)
  let ?m = "msg_max_pitstops (length (filter (\<lambda>x. 0 < x) pl)) (max_pitstops p)"
  have n: "?m \<notin> set (check_min_stints ss cs)" "?m \<notin> set (check_min_compounds cs (min_compounds p))"
    "?m \<notin> set e4" "?m \<notin> set (check_summary (uv_pit_laps p) pl)" "?m \<notin> set e6"
    using heads_notin[OF heads_min_stints, of ?m] heads_notin[OF heads_min_compounds, of ?m]
      heads_notin[OF heads_continuity[OF c(1)], of ?m] heads_notin[OF heads_summary, of ?m]
      heads_notin[OF heads_inventory[OF c(2)], of ?m] hd_max_pitstops
    by simp_all
  have "?m \<in> set (check_max_pitstops pl (max_pitstops p)) \<longleftrightarrow> max_pitstops p < int (length (filter (\<lambda>x. 0 < x) pl))"
    by (simp add: check_max_pitstops_def actual_stops_of_def Let_def pos_filter)
  then show ?thesis using n by (simp add: es)
qed


theorem pit_stop_ceiling_witness:
  "msg_max_pitstops 2 1 \<in> set overbooked_errors"
  using pit_stop_ceiling [OF overbooked_parse overbooked_run overbooked_iter overbooked_inlaps]
  by (simp add: overbooked_parsed_def numeral_2_eq_2 [symmetric])

section \<open>The summary of the pit laps\<close>

text \<open>
  C4, as the specification states it: the summary must equal the ascending sequence of the
  non-zero planned in-laps.  The code compares it with the positive ones: with planned
  in-laps \<open>-3\<close> and \<open>0\<close> and an empty summary the report is OK, though the sequence of
  non-zero in-laps is not empty.
\<close>

theorem negative_inlap_not_in_summary:
  "domain_validate_strategy (Inr negative_inlap_doc) = Inr ''OK''
   \<and> planned_inlaps_of negative_stints = Inr [- 3, 0]
   \<and> \<not> py_list_eq [] (spec_pit_laps [- 3, 0])"
  by (simp add: negative_inlap_doc_def negative_stints_def spec_pit_laps_def eval_defs)

text \<open>
  C4, amended: for every parsed document whose checks complete, the summary-consistency
  error is among the errors if and only if \<open>user_view.planned_pit_laps\<close> is not equal,
  element for element and in order, to the ascending sequence of the positive planned
  in-laps; for a summary of integers that is plain inequality of the two sequences, so
  any reordering, omission or extra entry gives the error.
\<close>

theorem summary_consistency:
  assumes "parse_document data = Inr p" and "run_checks p = Inr (es, ws)"
    and "py_iter (stints p) = Inr ss" and "planned_inlaps_of ss = Inr pl"
  shows "(msg_summary (uv_pit_laps p) (sort (filter (\<lambda>x. 0 < x) pl)) \<in> set es
          \<longleftrightarrow> \<not> list_all2 py_eq_int (uv_pit_laps p) (sort (filter (\<lambda>x. 0 < x) pl)))
       \<and> (\<forall>us. uv_pit_laps p = map PInt us \<longrightarrow>
            (msg_summary (uv_pit_laps p) (sort (filter (\<lambda>x. 0 < x) pl)) \<in> set es
             \<longleftrightarrow> us \<noteq> sort (filter (\<lambda>x. 0 < x) pl)))"
proof -
  obtain cs e4 e6 where c: "check_continuity ss = Inr e4"
    "check_inventory (allow_used p) (inv_map p) ss = Inr e6"
    and es: "es = check_min_stints ss cs @ check_min_compounds cs (min_compounds p)
               @ check_max_pitstops pl (max_pitstops p) @ e4
               @ check_summary (uv_pit_laps p) pl @ e6"
    using assms by (auto simp: run_checks_Inr)
  let ?m = "msg_summary (uv_pit_laps p) (sort (filter (\<lambda>x. 0 < x) pl))"
  have n: "?m \<notin> set (check_min_stints ss cs)" "?m \<notin> set (check_min_compounds cs (min_compounds p))"
    "?m \<notin> set e4" "?m \<notin> set (check_max_pitstops pl (max_pitstops p))" "?m \<notin> set e6"
    using heads_notin[OF heads_min_stints, of ?m] heads_notin[OF heads_min_compounds, of ?m]
      heads_notin[OF heads_continuity[OF c(1)], of ?m] heads_notin[OF heads_max_pitstops, of ?m]
      heads_notin[OF heads_inventory[OF c(2)], of ?m] hd_summary
    by simp_all
  have "?m \<in> set (check_summary (uv_pit_laps p) pl)
        \<longleftrightarrow> \<not> list_all2 py_eq_int (uv_pit_laps p) (sort (filter (\<lambda>x. 0 < x) pl))"
    by (simp add: check_summary_def expected_uv_of_def Let_def py_list_eq_all2)
  then have 1: "?m \<in> set es \<longleftrightarrow> \<not> list_all2 py_eq_int (uv_pit_laps p) (sort (filter (\<lambda>x. 0 < x) pl))"
    using n by (simp add: es)
  show ?thesis using 1 by (auto simp: all2_PInt)
qed


theorem summary_consistency_witness:
  "msg_summary [PInt 20] [20, 40] \<in> set overbooked_errors"
  using summary_consistency [OF overbooked_parse overbooked_run overbooked_iter overbooked_inlaps]
  by (simp add: overbooked_parsed_def)

end
